theory Spec2Isabelle
  imports Main "HOL-Library.AList" "HOL-Library.Char_ord" "HOL-Library.List_Lexorder"
begin

section \<open>The chat server's data model\<close>

text \<open>
  The model follows \<^verbatim>\<open>backend/src/ChatServer.ts\<close> (class \<^verbatim>\<open>DistributedChatServer\<close>) and the
  interfaces \<^verbatim>\<open>User\<close>, \<^verbatim>\<open>Group\<close> and \<^verbatim>\<open>Message\<close> of \<^verbatim>\<open>types/index\<close>.

  \<^item> A JavaScript string is the list of its code units, and a \<^typ>\<open>char\<close> is a code unit
    below 256 (ASCII and Latin-1). The comparison used by \<^verbatim>\<open>Array.prototype.sort\<close> is the
    lexicographic order on code units, here the lexicographic order on characters.
  \<^item> A \<^verbatim>\<open>Date\<close> is its number of milliseconds, an \<^typ>\<open>int\<close>. Every \<^verbatim>\<open>new Date()\<close> and
    every \<^verbatim>\<open>uuidv4()\<close> of a handler is a parameter of the handler (\<open>now\<close>, \<open>uuid\<close>).
  \<^item> The maps \<^verbatim>\<open>users\<close> and \<^verbatim>\<open>groups\<close> are association lists in insertion order, since the
    code searches their values in that order; \<^verbatim>\<open>Map.set\<close> is \<^const>\<open>AList.update\<close> (an
    existing key keeps its place) and \<^verbatim>\<open>Map.delete\<close> is \<^const>\<open>AList.delete\<close>. The maps that are
    only read by key are partial functions.
  \<^item> Fields called \<^verbatim>\<open>id\<close>, \<^verbatim>\<open>name\<close>, \<^verbatim>\<open>type\<close> and \<^verbatim>\<open>groups\<close> carry the name of their interface,
    because a record field is a constant of the theory.
  \<^item> Of a handler's outputs the model keeps the value passed to the acknowledgement callback
    and the \<^verbatim>\<open>user:typing\<close> pushes. The other pushes and the console log change no state and
    are not modelled.
\<close>

type_synonym time = int

record User =
  user_id :: string
  username :: string
  socketId :: string
  serverId :: string
  user_groups :: "string list"
  isOnline :: bool
  lastSeen :: time

record Group =
  group_id :: string
  group_name :: string
  description :: "string option"
  creator :: string
  members :: "string list"
  createdAt :: time

datatype msg_type = Group_msg | Private_msg | System_msg

record RepliedMessage =
  replied_id :: string
  replied_sender :: string
  replied_senderName :: "string option"
  replied_content :: string
  replied_timestamp :: time

text \<open>
  The stored fields of a \<^verbatim>\<open>Message\<close>. The remaining optional fields of the interface
  (\<^verbatim>\<open>senderName\<close>, \<^verbatim>\<open>groupName\<close>, \<^verbatim>\<open>isPrivate\<close>, \<^verbatim>\<open>isOwnMessage\<close>, \<^verbatim>\<open>edited\<close>, ...) are set only on
  the copies that are pushed to clients, never on a stored message.
\<close>

record Message =
  msg_id :: string
  msg_type :: msg_type
  sender :: string
  recipient :: string
  content :: string
  attachments :: "string list option"
  timestamp :: time
  delivered :: bool
  read :: bool
  replyTo :: "string option"
  repliedMessage :: "RepliedMessage option"
  deletedForMe :: "bool option"
  deletedForEveryone :: "bool option"
  deletedBy :: "string option"

record TypingStatus =
  typing_chatId :: string
  typing_isPrivate :: bool
  typing_timestamp :: time

text \<open>\<^verbatim>\<open>socket.data\<close> of a \<^verbatim>\<open>CustomSocket\<close>.\<close>

record SocketData =
  data_userId :: "string option"
  data_username :: "string option"

text \<open>
  A pending \<^verbatim>\<open>setTimeout\<close> of the \<^verbatim>\<open>typing:start\<close> handler: the time at which it is due and
  the values its closure captured (\<^verbatim>\<open>userId\<close>, \<^verbatim>\<open>data.chatId\<close>, \<^verbatim>\<open>data.isPrivate\<close>).
\<close>

record Timer =
  due :: time
  timer_userId :: string
  timer_chatId :: string
  timer_isPrivate :: bool

text \<open>
  The state of one server instance: the five maps of the class, its \<^verbatim>\<open>serverId\<close>, the
  \<^verbatim>\<open>data\<close> of every socket (by socket id; a socket that never joined has no user id) and the
  pending timers, in the order in which they were set.
\<close>

record Server =
  server_id :: string
  users :: "(string \<times> User) list"
  groups :: "(string \<times> Group) list"
  messages :: "string \<rightharpoonup> Message list"
  userSocketMap :: "string \<rightharpoonup> string"
  typingStatus :: "string \<rightharpoonup> TypingStatus"
  sockets :: "string \<Rightarrow> SocketData"
  timers :: "Timer list"

text \<open>A \<^verbatim>\<open>user:typing\<close> push: \<^verbatim>\<open>io.to(socket).emit('user:typing', {userId, isTyping, chatId})\<close>.\<close>

record TypingPush =
  push_to :: string
  push_userId :: string
  push_isTyping :: bool
  push_chatId :: string

text \<open>What a handler passes to its acknowledgement callback.\<close>

datatype response =
    Failure string
  | Joined User "User list" "Group list"
  | Reconnected User
  | GroupOk Group
  | Done
  | GroupSent Message "string list" nat
  | PrivateSent Message bool bool

section \<open>JavaScript helpers\<close>

text \<open>
  \<^verbatim>\<open>String.prototype.trim\<close> strips white space and line terminators from both ends. Among the
  code units below 256 these are tab, line feed, vertical tab, form feed, carriage return,
  space and the no-break space U+00A0.
\<close>

definition is_space :: "char \<Rightarrow> bool" where
  "is_space c =
     (c \<in> set [CHR 0x09, CHR 0x0A, CHR 0x0B, CHR 0x0C, CHR 0x0D, CHR 0x20, CHR 0xA0])"

definition trim :: "string \<Rightarrow> string" where
  "trim s = rev (dropWhile is_space (rev (dropWhile is_space s)))"

text \<open>
  \<^verbatim>\<open>String.prototype.toLowerCase\<close>. Among the code units below 256 the upper-case letters are
  A to Z and the Latin-1 letters U+00C0 to U+00DE without the multiplication sign U+00D7;
  each has its lower-case letter 32 places further.
\<close>

definition is_upper :: "char \<Rightarrow> bool" where
  "is_upper c =
     ((CHR 0x41 \<le> c \<and> c \<le> CHR 0x5A) \<or> (CHR 0xC0 \<le> c \<and> c \<le> CHR 0xDE \<and> c \<noteq> CHR 0xD7))"

definition toLowerCase :: "string \<Rightarrow> string" where
  "toLowerCase s = map (\<lambda>c. if is_upper c then char_of (of_char c + (32::nat)) else c) s"

text \<open>A string is truthy when it is not empty; \<^verbatim>\<open>undefined\<close> is falsy.\<close>

definition truthy :: "string option \<Rightarrow> bool" where
  "truthy x = (case x of None \<Rightarrow> False | Some v \<Rightarrow> v \<noteq> [])"

text \<open>
  \<^verbatim>\<open>xs.slice(start)\<close>: a negative start counts from the end, and both are clamped to the
  array.
\<close>

definition slice_from :: "'a list \<Rightarrow> int \<Rightarrow> 'a list" where
  "slice_from xs start =
     (if start < 0 then drop (nat (max (int (length xs) + start) 0)) xs
      else drop (nat start) xs)"

text \<open>\<^verbatim>\<open>xs.findIndex(p)\<close>, with \<^const>\<open>None\<close> for \<^verbatim>\<open>-1\<close>.\<close>

fun findIndex :: "('a \<Rightarrow> bool) \<Rightarrow> 'a list \<Rightarrow> nat option" where
  "findIndex p [] = None"
| "findIndex p (x # xs) =
     (if p x then Some 0 else map_option Suc (findIndex p xs))"

text \<open>
  \<^verbatim>\<open>[a, b].sort().join('_')\<close>: the default sort puts \<open>b\<close> first exactly when it is smaller
  than \<open>a\<close>.
\<close>

definition conversationKey :: "string \<Rightarrow> string \<Rightarrow> string" where
  "conversationKey a b = (if b < a then b @ ''_'' @ a else a @ ''_'' @ b)"

text \<open>\<^verbatim>\<open>customSocket.data.userId\<close>.\<close>

definition socket_userId :: "Server \<Rightarrow> string \<Rightarrow> string option" where
  "socket_userId s sock = data_userId (sockets s sock)"

text \<open>
  \<^verbatim>\<open>userId ? this.users.get(userId) : undefined\<close>, together with the user id when the
  user is found.
\<close>

definition identified :: "Server \<Rightarrow> string \<Rightarrow> (string \<times> User) option" where
  "identified s sock =
     (case socket_userId s sock of
        None \<Rightarrow> None
      | Some u \<Rightarrow> if u = [] then None else map_option (Pair u) (map_of (users s) u))"

text \<open>\<^verbatim>\<open>this.messages.get(key) || []\<close>.\<close>

definition log_of :: "Server \<Rightarrow> string \<Rightarrow> Message list" where
  "log_of s key = (case messages s key of None \<Rightarrow> [] | Some ms \<Rightarrow> ms)"

text \<open>
  The log a \<^verbatim>\<open>messages:get\<close> or \<^verbatim>\<open>messages:more\<close> request reads: for a private chat the key is
  built from the socket's user id and the other party, and without a user id the key is the
  empty string, for which the code reads nothing.
\<close>

definition requested_log :: "Server \<Rightarrow> string \<Rightarrow> string \<Rightarrow> bool \<Rightarrow> Message list" where
  "requested_log s sock chatId isPrivate =
     (if isPrivate then
        (let key = (case socket_userId s sock of
                      None \<Rightarrow> []
                    | Some u \<Rightarrow> if u = [] then [] else conversationKey u chatId)
         in if key = [] then [] else log_of s key)
      else log_of s chatId)"

section \<open>Reading a conversation\<close>

text \<open>
  \<^verbatim>\<open>messages:get\<close>. The limit is an optional number, here an integer;
  \<^verbatim>\<open>data.limit && !isNaN(data.limit)\<close> holds for a limit that is present and not zero.
\<close>

definition messages_get :: "Server \<Rightarrow> string \<Rightarrow> string \<Rightarrow> bool \<Rightarrow> int option \<Rightarrow> Message list" where
  "messages_get s sock chatId isPrivate limit =
     (let msgs = requested_log s sock chatId isPrivate
      in case limit of
           None \<Rightarrow> msgs
         | Some l \<Rightarrow> if l \<noteq> 0 then slice_from msgs (- l) else msgs)"

text \<open>\<^verbatim>\<open>messages:more\<close>; \<^verbatim>\<open>data.limit || 20\<close> is 20 for a limit that is absent or zero.\<close>

definition messages_more ::
  "Server \<Rightarrow> string \<Rightarrow> string \<Rightarrow> bool \<Rightarrow> time \<Rightarrow> int option \<Rightarrow> Message list" where
  "messages_more s sock chatId isPrivate before limit =
     (let msgs = filter (\<lambda>msg. timestamp msg < before) (requested_log s sock chatId isPrivate);
          l = (case limit of None \<Rightarrow> 20 | Some n \<Rightarrow> if n = 0 then 20 else n)
      in slice_from msgs (- l))"

section \<open>Presence\<close>

text \<open>
  The common end of a successful \<^verbatim>\<open>user:join\<close>: bind the socket, record the user in
  \<^verbatim>\<open>socket.data\<close>, and answer with the user, the other online users of this instance and
  the groups.
\<close>

definition join_finish :: "Server \<Rightarrow> string \<Rightarrow> User \<Rightarrow> response \<times> Server" where
  "join_finish s sock user =
     (let s' = s\<lparr>userSocketMap := (userSocketMap s)(user_id user \<mapsto> sock),
                  sockets := (sockets s)(sock :=
                    \<lparr>data_userId = Some (user_id user), data_username = Some (username user)\<rparr>)\<rparr>;
          onlineUsers = filter (\<lambda>u. isOnline u \<and> serverId u = server_id s \<and> user_id u \<noteq> user_id user)
                          (map snd (users s'))
      in (Joined user onlineUsers (map snd (groups s')), s'))"

text \<open>
  \<^verbatim>\<open>user:join\<close>. The search for an existing user compares the stored names with the
  name as it was sent; a new user is stored under the trimmed name.
\<close>

definition user_join :: "Server \<Rightarrow> string \<Rightarrow> string \<Rightarrow> string \<Rightarrow> time \<Rightarrow> response \<times> Server" where
  "user_join s sock name uuid now =
     (if name = [] \<or> length (trim name) = 0 then (Failure ''Username is required'', s)
      else
        case find (\<lambda>(k, u). username u = name \<and> serverId u = server_id s) (users s) of
          Some (k, existingUser) \<Rightarrow>
            if isOnline existingUser then (Failure ''Username already taken'', s)
            else
              (let user = existingUser\<lparr>isOnline := True, socketId := sock, lastSeen := now\<rparr>
               in join_finish (s\<lparr>users := AList.update k user (users s)\<rparr>) sock user)
        | None \<Rightarrow>
            (let user = \<lparr>user_id = uuid, username = trim name, socketId = sock,
                         serverId = server_id s, user_groups = [], isOnline = True,
                         lastSeen = now\<rparr>
             in join_finish (s\<lparr>users := AList.update uuid user (users s)\<rparr>) sock user))"

text \<open>\<^verbatim>\<open>user:reconnect\<close>.\<close>

definition user_reconnect :: "Server \<Rightarrow> string \<Rightarrow> string \<Rightarrow> time \<Rightarrow> response \<times> Server" where
  "user_reconnect s sock userId now =
     (case map_of (users s) userId of
        None \<Rightarrow> (Failure ''User not found'', s)
      | Some u \<Rightarrow>
          (let user = u\<lparr>isOnline := True, socketId := sock, lastSeen := now\<rparr>
           in (Reconnected user,
               s\<lparr>users := AList.update userId user (users s),
                 userSocketMap := (userSocketMap s)(userId \<mapsto> sock),
                 sockets := (sockets s)(sock :=
                   \<lparr>data_userId = Some userId, data_username = Some (username user)\<rparr>)\<rparr>)))"

text \<open>\<^verbatim>\<open>handleUserDisconnect\<close>, called for \<^verbatim>\<open>user:leave\<close> and for \<^verbatim>\<open>disconnect\<close>.\<close>

definition handleUserDisconnect :: "Server \<Rightarrow> string \<Rightarrow> time \<Rightarrow> Server" where
  "handleUserDisconnect s sock now =
     (case identified s sock of
        None \<Rightarrow> s
      | Some (userId, user) \<Rightarrow>
          s\<lparr>users := AList.update userId
                       (user\<lparr>isOnline := False, lastSeen := now, socketId := []\<rparr>) (users s),
            userSocketMap := (userSocketMap s)(userId := None),
            typingStatus := (typingStatus s)(userId := None)\<rparr>)"

text \<open>\<^verbatim>\<open>users:get\<close>; the current user is looked up under \<^verbatim>\<open>userId || ''\<close>.\<close>

definition users_get :: "Server \<Rightarrow> string \<Rightarrow> User list" where
  "users_get s sock =
     (case map_of (users s) (case socket_userId s sock of None \<Rightarrow> [] | Some u \<Rightarrow> u) of
        None \<Rightarrow> []
      | Some currentUser \<Rightarrow>
          filter (\<lambda>u. isOnline u \<and> serverId u = server_id s \<and> user_id u \<noteq> user_id currentUser)
            (map snd (users s)))"

section \<open>Groups\<close>

text \<open>\<^verbatim>\<open>if (!list.includes(x)) list.push(x)\<close>.\<close>

definition push_new :: "string \<Rightarrow> string list \<Rightarrow> string list" where
  "push_new x xs = (if x \<in> set xs then xs else xs @ [x])"

text \<open>The system message that \<^verbatim>\<open>group:join\<close> and \<^verbatim>\<open>group:leave\<close> append to the group's log.\<close>

definition systemMessage :: "string \<Rightarrow> string \<Rightarrow> string \<Rightarrow> time \<Rightarrow> Message" where
  "systemMessage uuid groupId text now =
     \<lparr>msg_id = uuid, msg_type = System_msg, sender = ''system'', recipient = groupId,
      content = text, attachments = None, timestamp = now, delivered = True, read = False,
      replyTo = None, repliedMessage = None, deletedForMe = None, deletedForEveryone = None,
      deletedBy = None\<rparr>"

text \<open>
  \<^verbatim>\<open>if (!this.messages.has(key)) this.messages.set(key, []); this.messages.get(key)?.push(m)\<close>.
\<close>

definition append_message :: "Server \<Rightarrow> string \<Rightarrow> Message \<Rightarrow> Server" where
  "append_message s key m = s\<lparr>messages := (messages s)(key \<mapsto> log_of s key @ [m])\<rparr>"

text \<open>\<^verbatim>\<open>group:create\<close>.\<close>

definition group_create ::
  "Server \<Rightarrow> string \<Rightarrow> string \<Rightarrow> string option \<Rightarrow> string \<Rightarrow> time \<Rightarrow> response \<times> Server" where
  "group_create s sock name desc uuid now =
     (case identified s sock of
        None \<Rightarrow> (Failure ''User not found'', s)
      | Some (userId, user) \<Rightarrow>
          if name = [] \<or> length (trim name) = 0 then (Failure ''Group name is required'', s)
          else
            (case find (\<lambda>g. toLowerCase (group_name g) = toLowerCase name)
                    (map snd (groups s)) of
               Some existingGroup \<Rightarrow> (Failure ''Group already exists'', s)
             | None \<Rightarrow>
                 (let grp = \<lparr>group_id = uuid, group_name = trim name,
                               description = map_option trim desc, creator = userId,
                               members = [userId], createdAt = now\<rparr>
                  in (GroupOk grp,
                      s\<lparr>groups := AList.update uuid grp (groups s),
                        users := AList.update userId
                                   (user\<lparr>user_groups := push_new uuid (user_groups user)\<rparr>)
                                   (users s)\<rparr>))))"

text \<open>\<^verbatim>\<open>group:join\<close>.\<close>

definition group_join :: "Server \<Rightarrow> string \<Rightarrow> string \<Rightarrow> string \<Rightarrow> time \<Rightarrow> response \<times> Server" where
  "group_join s sock groupId uuid now =
     (case (identified s sock, map_of (groups s) groupId) of
        (Some (userId, user), Some grp) \<Rightarrow>
          if userId \<in> set (members grp) then (Failure ''Already in group'', s)
          else
            (let grp' = grp\<lparr>members := members grp @ [userId]\<rparr>;
                 user' = user\<lparr>user_groups := push_new groupId (user_groups user)\<rparr>;
                 s1 = s\<lparr>groups := AList.update groupId grp' (groups s),
                        users := AList.update userId user' (users s)\<rparr>
             in (GroupOk grp',
                 append_message s1 groupId
                   (systemMessage uuid groupId (username user @ '' joined the group'') now)))
      | _ \<Rightarrow> (Failure ''User or group not found'', s))"

text \<open>
  \<^verbatim>\<open>group:leave\<close>. The callback receives the group after the member was removed; a group
  left without members is then deleted with its log.
\<close>

definition group_leave :: "Server \<Rightarrow> string \<Rightarrow> string \<Rightarrow> string \<Rightarrow> time \<Rightarrow> response \<times> Server" where
  "group_leave s sock groupId uuid now =
     (case (identified s sock, map_of (groups s) groupId) of
        (Some (userId, user), Some grp) \<Rightarrow>
          if userId \<notin> set (members grp) then (Failure ''Not in group'', s)
          else
            (let s1 = append_message s groupId
                        (systemMessage uuid groupId (username user @ '' left the group'') now);
                 grp' = grp\<lparr>members := filter (\<lambda>i. i \<noteq> userId) (members grp)\<rparr>;
                 user' = user\<lparr>user_groups := filter (\<lambda>i. i \<noteq> groupId) (user_groups user)\<rparr>;
                 s2 = s1\<lparr>groups := AList.update groupId grp' (groups s1),
                         users := AList.update userId user' (users s1)\<rparr>
             in (GroupOk grp',
                 if length (members grp') = 0 then
                   s2\<lparr>groups := AList.delete groupId (groups s2),
                      messages := (messages s2)(groupId := None)\<rparr>
                 else s2))
      | _ \<Rightarrow> (Failure ''User or group not found'', s))"

text \<open>
  \<^verbatim>\<open>group:delete\<close>: every member that is a known user loses the group from its list, then the
  group and its log are deleted.
\<close>

definition scrub_member :: "string \<Rightarrow> string \<Rightarrow> (string \<times> User) list \<Rightarrow> (string \<times> User) list" where
  "scrub_member groupId memberId us =
     (case map_of us memberId of
        None \<Rightarrow> us
      | Some member \<Rightarrow>
          AList.update memberId
            (member\<lparr>user_groups := filter (\<lambda>i. i \<noteq> groupId) (user_groups member)\<rparr>) us)"

definition group_delete :: "Server \<Rightarrow> string \<Rightarrow> string \<Rightarrow> response \<times> Server" where
  "group_delete s sock groupId =
     (case (identified s sock, map_of (groups s) groupId) of
        (Some (userId, user), Some grp) \<Rightarrow>
          if creator grp \<noteq> userId then
            (Failure ''Only the group creator can delete the group'', s)
          else
            (Done,
             s\<lparr>users := fold (scrub_member groupId) (members grp) (users s),
               groups := AList.delete groupId (groups s),
               messages := (messages s)(groupId := None)\<rparr>)
      | _ \<Rightarrow> (Failure ''User or group not found'', s))"

text \<open>\<^verbatim>\<open>groups:get\<close>.\<close>

definition groups_get :: "Server \<Rightarrow> Group list" where
  "groups_get s = map snd (groups s)"

section \<open>Messages\<close>

text \<open>\<^verbatim>\<open>data.replyTo || undefined\<close>.\<close>

definition or_undefined :: "string option \<Rightarrow> string option" where
  "or_undefined x = (if truthy x then x else None)"

text \<open>
  The message objects that \<^verbatim>\<open>message:group\<close> and \<^verbatim>\<open>message:private\<close> build. A group message
  is stored as delivered; a private message is stored with the recipient's online flag as
  its \<^verbatim>\<open>delivered\<close>.
\<close>

definition group_message ::
  "string \<Rightarrow> string \<Rightarrow> string \<Rightarrow> string list option \<Rightarrow> string option \<Rightarrow>
   RepliedMessage option \<Rightarrow> string \<Rightarrow> time \<Rightarrow> Message" where
  "group_message userId groupId text atts reply replied uuid now =
     \<lparr>msg_id = uuid, msg_type = Group_msg, sender = userId, recipient = groupId,
      content = trim text, attachments = atts, timestamp = now, delivered = True,
      read = False, replyTo = or_undefined reply, repliedMessage = replied,
      deletedForMe = None, deletedForEveryone = None, deletedBy = None\<rparr>"

definition private_message ::
  "string \<Rightarrow> string \<Rightarrow> string \<Rightarrow> string list option \<Rightarrow> string option \<Rightarrow>
   RepliedMessage option \<Rightarrow> string \<Rightarrow> time \<Rightarrow> bool \<Rightarrow> Message" where
  "private_message senderId recipientId text atts reply replied uuid now recipientOnline =
     \<lparr>msg_id = uuid, msg_type = Private_msg, sender = senderId, recipient = recipientId,
      content = trim text, attachments = atts, timestamp = now,
      delivered = recipientOnline, read = False, replyTo = or_undefined reply,
      repliedMessage = replied, deletedForMe = None, deletedForEveryone = None,
      deletedBy = None\<rparr>"

text \<open>A member that a group message is pushed to.\<close>

definition reachable_member :: "Server \<Rightarrow> string \<Rightarrow> bool" where
  "reachable_member s memberId =
     (case map_of (users s) memberId of
        None \<Rightarrow> False
      | Some member \<Rightarrow>
          isOnline member \<and> serverId member = server_id s \<and> truthy (userSocketMap s memberId))"

text \<open>\<^verbatim>\<open>message:group\<close>.\<close>

definition message_group ::
  "Server \<Rightarrow> string \<Rightarrow> string \<Rightarrow> string \<Rightarrow> string list option \<Rightarrow> string option \<Rightarrow>
   RepliedMessage option \<Rightarrow> string \<Rightarrow> time \<Rightarrow> response \<times> Server" where
  "message_group s sock groupId text atts reply replied uuid now =
     (case (identified s sock, map_of (groups s) groupId) of
        (Some (userId, user), Some grp) \<Rightarrow>
          if userId \<notin> set (members grp) then (Failure ''Not a member of this group'', s)
          else if text = [] \<or> length (trim text) = 0 then (Failure ''Message cannot be empty'', s)
          else
            (let message = group_message userId groupId text atts reply replied uuid now;
                 s' = append_message s groupId message;
                 deliveredTo = filter (reachable_member s') (members grp)
             in (GroupSent message deliveredTo (length deliveredTo), s'))
      | _ \<Rightarrow> (Failure ''User or group not found'', s))"

text \<open>
  \<^verbatim>\<open>message:private\<close>. The \<^verbatim>\<open>delivered\<close> of the answer is set only when the message was pushed
  to a bound socket of an online recipient; the second flag of the answer is
  \<^verbatim>\<open>recipientOnline\<close>.
\<close>

definition message_private ::
  "Server \<Rightarrow> string \<Rightarrow> string \<Rightarrow> string \<Rightarrow> string list option \<Rightarrow> string option \<Rightarrow>
   RepliedMessage option \<Rightarrow> string \<Rightarrow> time \<Rightarrow> response \<times> Server" where
  "message_private s sock recipientId text atts reply replied uuid now =
     (case (identified s sock, map_of (users s) recipientId) of
        (Some (senderId, sender_user), Some recipient_user) \<Rightarrow>
          if serverId sender_user \<noteq> serverId recipient_user then
            (Failure ''Cannot message users from different servers'', s)
          else if text = [] \<or> length (trim text) = 0 then (Failure ''Message cannot be empty'', s)
          else
            (let message = private_message senderId recipientId text atts reply replied uuid
                             now (isOnline recipient_user);
                 s' = append_message s (conversationKey senderId recipientId) message;
                 was_delivered =
                   (isOnline recipient_user \<and> serverId recipient_user = server_id s \<and>
                    truthy (userSocketMap s' recipientId))
             in (PrivateSent message was_delivered (isOnline recipient_user), s'))
      | _ \<Rightarrow> (Failure ''User not found'', s))"

text \<open>\<^verbatim>\<open>message:read\<close>.\<close>

definition message_read :: "Server \<Rightarrow> string \<Rightarrow> string \<Rightarrow> bool \<Rightarrow> Server" where
  "message_read s sock chatId isPrivate =
     (case socket_userId s sock of
        None \<Rightarrow> s
      | Some userId \<Rightarrow>
          if userId = [] then s
          else
            (let messageKey = (if isPrivate then conversationKey userId chatId else chatId)
             in case messages s messageKey of
                  None \<Rightarrow> s
                | Some msgs \<Rightarrow>
                    s\<lparr>messages := (messages s)(messageKey \<mapsto>
                         map (\<lambda>msg.
                                if (isPrivate \<and> sender msg = chatId \<and> recipient msg = userId) \<or>
                                   (\<not> isPrivate \<and> recipient msg = chatId \<and> sender msg \<noteq> userId)
                                then msg\<lparr>read := True\<rparr> else msg) msgs)\<rparr>))"

text \<open>
  The two replacements that \<^verbatim>\<open>message:delete\<close> writes over a stored message:
  \<^verbatim>\<open>{...message, content: "This message was deleted", attachments: [], deletedForEveryone: true,
  deletedBy: userId}\<close> and the same with \<^verbatim>\<open>deletedForMe\<close>.
\<close>

definition deleted_for_everyone :: "Message \<Rightarrow> string \<Rightarrow> Message" where
  "deleted_for_everyone message userId =
     message\<lparr>content := ''This message was deleted'', attachments := Some [],
             deletedForEveryone := Some True, deletedBy := Some userId\<rparr>"

definition deleted_for_me :: "Message \<Rightarrow> string \<Rightarrow> Message" where
  "deleted_for_me message userId =
     message\<lparr>content := ''This message was deleted'', attachments := Some [],
             deletedForMe := Some True, deletedBy := Some userId\<rparr>"

text \<open>\<^verbatim>\<open>messages[messageIndex] = m\<close> in the log stored under a key.\<close>

definition store_at :: "Server \<Rightarrow> string \<Rightarrow> Message list \<Rightarrow> nat \<Rightarrow> Message \<Rightarrow> Server" where
  "store_at s key msgs i m = s\<lparr>messages := (messages s)(key \<mapsto> msgs[i := m])\<rparr>"

text \<open>
  \<^verbatim>\<open>message:delete\<close>, with the private and the group branch as the handler has them. The
  index comes from \<^const>\<open>findIndex\<close> and is therefore inside the log.
\<close>

definition message_delete ::
  "Server \<Rightarrow> string \<Rightarrow> string \<Rightarrow> string \<Rightarrow> bool \<Rightarrow> bool \<Rightarrow> response \<times> Server" where
  "message_delete s sock messageId chatId isPrivate deleteForEveryone =
     (case socket_userId s sock of
        None \<Rightarrow> (Failure ''User not found'', s)
      | Some userId \<Rightarrow>
          if userId = [] then (Failure ''User not found'', s)
          else if isPrivate then
            (let key = conversationKey userId chatId
             in case messages s key of
                  None \<Rightarrow> (Failure ''Messages not found'', s)
                | Some msgs \<Rightarrow>
                    (case findIndex (\<lambda>msg. msg_id msg = messageId) msgs of
                       None \<Rightarrow> (Failure ''Message not found'', s)
                     | Some messageIndex \<Rightarrow>
                         (let message = msgs ! messageIndex
                          in if deleteForEveryone then
                               (if sender message \<noteq> userId then
                                  (Failure ''Only the message sender can delete for everyone'', s)
                                else
                                  (Done, store_at s key msgs messageIndex
                                           (deleted_for_everyone message userId)))
                             else
                               (if sender message \<noteq> userId then
                                  (Failure ''You can only delete your own messages for yourself'', s)
                                else
                                  (Done, store_at s key msgs messageIndex
                                           (deleted_for_me message userId))))))
          else
            (case messages s chatId of
               None \<Rightarrow> (Failure ''Messages not found'', s)
             | Some msgs \<Rightarrow>
                 (case findIndex (\<lambda>msg. msg_id msg = messageId) msgs of
                    None \<Rightarrow> (Failure ''Message not found'', s)
                  | Some messageIndex \<Rightarrow>
                      (let message = msgs ! messageIndex
                       in if deleteForEveryone then
                            (if sender message \<noteq> userId then
                               (Failure ''Only the message sender can delete for everyone'', s)
                             else
                               (Done, store_at s chatId msgs messageIndex
                                        (deleted_for_everyone message userId)))
                          else
                            (Done, store_at s chatId msgs messageIndex
                                     (deleted_for_me message userId))))))"

text \<open>\<^verbatim>\<open>chat:delete\<close>.\<close>

definition chat_delete :: "Server \<Rightarrow> string \<Rightarrow> string \<Rightarrow> bool \<Rightarrow> response \<times> Server" where
  "chat_delete s sock chatId isPrivate =
     (case socket_userId s sock of
        None \<Rightarrow> (Failure ''User not found'', s)
      | Some userId \<Rightarrow>
          if userId = [] then (Failure ''User not found'', s)
          else if isPrivate then
            (Done, s\<lparr>messages := (messages s)(conversationKey userId chatId := None)\<rparr>)
          else
            (case map_of (groups s) chatId of
               None \<Rightarrow> (Failure ''Only group creator can delete group chat'', s)
             | Some grp \<Rightarrow>
                 if creator grp = userId then
                   (Done, s\<lparr>messages := (messages s)(chatId := None)\<rparr>)
                 else (Failure ''Only group creator can delete group chat'', s)))"

section \<open>Typing indicators\<close>

text \<open>
  The sockets a \<^verbatim>\<open>user:typing\<close> notice goes to: the other party's socket for a private chat,
  the sockets of the other members for a group (in member order), each only when the
  binding exists and is not empty.
\<close>

definition bound_socket :: "Server \<Rightarrow> string \<Rightarrow> string list" where
  "bound_socket s u =
     (case userSocketMap s u of None \<Rightarrow> [] | Some sid \<Rightarrow> if sid = [] then [] else [sid])"

definition typing_audience :: "Server \<Rightarrow> string \<Rightarrow> string \<Rightarrow> bool \<Rightarrow> string list" where
  "typing_audience s userId chatId isPrivate =
     (if isPrivate then bound_socket s chatId
      else
        case map_of (groups s) chatId of
          None \<Rightarrow> []
        | Some grp \<Rightarrow>
            concat (map (bound_socket s) (filter (\<lambda>memberId. memberId \<noteq> userId) (members grp))))"

definition typing_pushes :: "Server \<Rightarrow> string \<Rightarrow> string \<Rightarrow> bool \<Rightarrow> bool \<Rightarrow> TypingPush list" where
  "typing_pushes s userId chatId isPrivate isTyping =
     map (\<lambda>sid. \<lparr>push_to = sid, push_userId = userId, push_isTyping = isTyping,
                 push_chatId = chatId\<rparr>)
       (typing_audience s userId chatId isPrivate)"

text \<open>
  \<^verbatim>\<open>typing:start\<close>: the entry is written, the notice is pushed, and a timer is set for 3000
  milliseconds later. Nothing clears a timer that was set before.
\<close>

definition typing_start ::
  "Server \<Rightarrow> string \<Rightarrow> string \<Rightarrow> bool \<Rightarrow> time \<Rightarrow> Server \<times> TypingPush list" where
  "typing_start s sock chatId isPrivate now =
     (case socket_userId s sock of
        None \<Rightarrow> (s, [])
      | Some userId \<Rightarrow>
          if userId = [] then (s, [])
          else
            (let s' = s\<lparr>typingStatus := (typingStatus s)(userId \<mapsto>
                          \<lparr>typing_chatId = chatId, typing_isPrivate = isPrivate,
                           typing_timestamp = now\<rparr>)\<rparr>
             in (s'\<lparr>timers := timers s' @
                    [\<lparr>due = now + 3000, timer_userId = userId, timer_chatId = chatId,
                      timer_isPrivate = isPrivate\<rparr>]\<rparr>,
                 typing_pushes s' userId chatId isPrivate True)))"

text \<open>
  The callback of the timer: when the user's current entry names the chat the timer was set
  for, the entry is deleted and the end of typing is pushed.
\<close>

definition typing_timeout :: "Server \<Rightarrow> Timer \<Rightarrow> Server \<times> TypingPush list" where
  "typing_timeout s t =
     (case typingStatus s (timer_userId t) of
        None \<Rightarrow> (s, [])
      | Some currentStatus \<Rightarrow>
          if typing_chatId currentStatus = timer_chatId t then
            (let s' = s\<lparr>typingStatus := (typingStatus s)(timer_userId t := None)\<rparr>
             in (s', typing_pushes s' (timer_userId t) (timer_chatId t) (timer_isPrivate t) False))
          else (s, []))"

text \<open>\<^verbatim>\<open>typing:stop\<close>.\<close>

definition typing_stop :: "Server \<Rightarrow> string \<Rightarrow> string \<Rightarrow> bool \<Rightarrow> Server \<times> TypingPush list" where
  "typing_stop s sock chatId isPrivate =
     (case socket_userId s sock of
        None \<Rightarrow> (s, [])
      | Some userId \<Rightarrow>
          if userId = [] then (s, [])
          else
            (let s' = s\<lparr>typingStatus := (typingStatus s)(userId := None)\<rparr>
             in (s', typing_pushes s' userId chatId isPrivate False)))"

text \<open>
  The event loop at time \<open>now\<close>: the timers that are due run in the order of their due
  times (timers due at the same time in the order in which they were set) and leave the
  list of pending timers.
\<close>

definition run_timer :: "Timer \<Rightarrow> Server \<times> TypingPush list \<Rightarrow> Server \<times> TypingPush list" where
  "run_timer t acc = (case typing_timeout (fst acc) t of (s', out) \<Rightarrow> (s', snd acc @ out))"

definition run_timers :: "Server \<Rightarrow> time \<Rightarrow> Server \<times> TypingPush list" where
  "run_timers s now =
     fold run_timer (sort_key due (filter (\<lambda>t. due t \<le> now) (timers s)))
       (s\<lparr>timers := filter (\<lambda>t. \<not> due t \<le> now) (timers s)\<rparr>, [])"

text \<open>
  The periodic sweep that \<^verbatim>\<open>start\<close> installs: every entry older than 10000 milliseconds is
  deleted.
\<close>

definition typing_sweep :: "Server \<Rightarrow> time \<Rightarrow> Server" where
  "typing_sweep s now =
     s\<lparr>typingStatus :=
         (\<lambda>userId. case typingStatus s userId of
                      None \<Rightarrow> None
                    | Some status \<Rightarrow>
                        if now - typing_timestamp status > 10000 then None else Some status)\<rparr>"

section \<open>The initial state and the events\<close>

text \<open>The state the field initialisers of the class give, before the sample data.\<close>

definition new_server :: "string \<Rightarrow> Server" where
  "new_server sid =
     \<lparr>server_id = sid, users = [], groups = [], messages = Map.empty,
      userSocketMap = Map.empty, typingStatus = Map.empty,
      sockets = (\<lambda>sock. \<lparr>data_userId = None, data_username = None\<rparr>), timers = []\<rparr>"

text \<open>The decimal digits of a number, for the template string \<^verbatim>\<open>`group-${index + 1}`\<close>.\<close>

fun decimal :: "nat \<Rightarrow> string" where
  "decimal n =
     (if n < 10 then [char_of (48 + n)] else decimal (n div 10) @ [char_of (48 + n mod 10)])"

definition sampleGroups :: "(string \<times> string) list" where
  "sampleGroups =
     [(''General'', ''General discussions''),
      (''Tech Talk'', ''Technology discussions''),
      (''Random'', ''Random chat''),
      (''Project Help'', ''Get help with projects'')]"

text \<open>
  \<^verbatim>\<open>initializeSampleData\<close>: the constructor stores four groups that have no members. The clock
  gives the \<^verbatim>\<open>new Date()\<close> of each round of the loop.
\<close>

definition sample_group :: "(nat \<Rightarrow> time) \<Rightarrow> nat \<times> string \<times> string \<Rightarrow> Group" where
  "sample_group clock entry =
     (case entry of (index, name, desc) \<Rightarrow>
        \<lparr>group_id = ''group-'' @ decimal (index + 1), group_name = name,
         description = Some desc, creator = ''system'', members = [],
         createdAt = clock index\<rparr>)"

definition initializeSampleData :: "(nat \<Rightarrow> time) \<Rightarrow> Server \<Rightarrow> Server" where
  "initializeSampleData clock s =
     fold (\<lambda>entry st.
             st\<lparr>groups := AList.update (group_id (sample_group clock entry))
                             (sample_group clock entry) (groups st)\<rparr>)
       (enumerate 0 sampleGroups) s"

definition initial_server :: "string \<Rightarrow> (nat \<Rightarrow> time) \<Rightarrow> Server" where
  "initial_server sid clock = initializeSampleData clock (new_server sid)"

text \<open>
  The events that change the state: the socket events with the socket they arrive on and
  the values the handler draws (\<open>uuid\<close>, \<open>now\<close>), the run of the due timers and the sweep.
  The read-only requests (\<^verbatim>\<open>users:get\<close>, \<^verbatim>\<open>groups:get\<close>, \<^verbatim>\<open>messages:get\<close>, \<^verbatim>\<open>messages:more\<close>)
  change nothing and are not events of the state machine.
\<close>

datatype event =
    UserJoin string string string time
  | UserReconnect string string time
  | UserLeave string time
  | Disconnect string time
  | GroupCreate string string "string option" string time
  | GroupJoin string string string time
  | GroupLeave string string string time
  | GroupDelete string string
  | MessageGroup string string string "string list option" "string option"
      "RepliedMessage option" string time
  | MessagePrivate string string string "string list option" "string option"
      "RepliedMessage option" string time
  | MessageRead string string bool
  | MessageDelete string string string bool bool
  | ChatDelete string string bool
  | TypingStart string string bool time
  | TypingStop string string bool
  | TimersRun time
  | Sweep time

fun step :: "Server \<Rightarrow> event \<Rightarrow> Server" where
  "step s (UserJoin sock name uuid now) = snd (user_join s sock name uuid now)"
| "step s (UserReconnect sock userId now) = snd (user_reconnect s sock userId now)"
| "step s (UserLeave sock now) = handleUserDisconnect s sock now"
| "step s (Disconnect sock now) = handleUserDisconnect s sock now"
| "step s (GroupCreate sock name desc uuid now) = snd (group_create s sock name desc uuid now)"
| "step s (GroupJoin sock groupId uuid now) = snd (group_join s sock groupId uuid now)"
| "step s (GroupLeave sock groupId uuid now) = snd (group_leave s sock groupId uuid now)"
| "step s (GroupDelete sock groupId) = snd (group_delete s sock groupId)"
| "step s (MessageGroup sock groupId text atts reply replied uuid now) =
     snd (message_group s sock groupId text atts reply replied uuid now)"
| "step s (MessagePrivate sock recipientId text atts reply replied uuid now) =
     snd (message_private s sock recipientId text atts reply replied uuid now)"
| "step s (MessageRead sock chatId isPrivate) = message_read s sock chatId isPrivate"
| "step s (MessageDelete sock messageId chatId isPrivate deleteForEveryone) =
     snd (message_delete s sock messageId chatId isPrivate deleteForEveryone)"
| "step s (ChatDelete sock chatId isPrivate) = snd (chat_delete s sock chatId isPrivate)"
| "step s (TypingStart sock chatId isPrivate now) = fst (typing_start s sock chatId isPrivate now)"
| "step s (TypingStop sock chatId isPrivate) = fst (typing_stop s sock chatId isPrivate)"
| "step s (TimersRun now) = fst (run_timers s now)"
| "step s (Sweep now) = typing_sweep s now"

text \<open>The states an instance can be in: the initial state and every state an event leads to.\<close>

inductive reachable :: "string \<Rightarrow> (nat \<Rightarrow> time) \<Rightarrow> Server \<Rightarrow> bool" for sid clock where
  reachable_init: "reachable sid clock (initial_server sid clock)"
| reachable_step: "reachable sid clock s \<Longrightarrow> reachable sid clock (step s e)"

text \<open>The state after a list of events.\<close>

definition run :: "Server \<Rightarrow> event list \<Rightarrow> Server" where
  "run s es = fold (\<lambda>e st. step st e) es s"

section \<open>Definitions for the properties\<close>

text \<open>
  The groups without members are groups of the sample data that nobody has joined: each is
  still the entry the constructor stored.
\<close>

definition empty_groups_are_samples :: "(nat \<Rightarrow> time) \<Rightarrow> Server \<Rightarrow> bool" where
  "empty_groups_are_samples clock s =
     (\<forall>(k, g) \<in> set (groups s).
        members g = [] \<longrightarrow> (k, g) \<in> set (groups (initial_server [] clock)))"

text \<open>
  Every stored user sits under its own id, and the user id a socket carries is the key of a
  stored user.
\<close>

definition keyed :: "(string \<times> User) list \<Rightarrow> bool" where
  "keyed al = (\<forall>(k, u) \<in> set al. user_id u = k)"

definition sockets_name_users :: "Server \<Rightarrow> bool" where
  "sockets_name_users s =
     (keyed (users s) \<and>
      (\<forall>sock u. socket_userId s sock = Some u \<longrightarrow> u \<in> fst ` set (users s)))"

text \<open>
  The effect on users and sockets of a handler that leaves the sockets alone and only
  replaces stored users.
\<close>

definition users_extended :: "Server \<Rightarrow> Server \<Rightarrow> bool" where
  "users_extended s s' =
     (sockets s' = sockets s \<and> (keyed (users s) \<longrightarrow> keyed (users s')) \<and>
      fst ` set (users s) \<subseteq> fst ` set (users s'))"

text \<open>Two \<^verbatim>\<open>typing:start\<close> events on one socket for one chat, at the times \<open>t1\<close> and \<open>t2\<close>.\<close>

definition two_starts :: "Server \<Rightarrow> string \<Rightarrow> string \<Rightarrow> bool \<Rightarrow> time \<Rightarrow> time \<Rightarrow> Server" where
  "two_starts s sock chatId isPrivate t1 t2 =
     fst (typing_start (fst (typing_start s sock chatId isPrivate t1)) sock chatId isPrivate t2)"

text \<open>
  A session used for the concrete instances: alice and bob join on two sockets, alice joins
  the first sample group, writes to bob and then to the group.
\<close>

definition clock0 :: "nat \<Rightarrow> time" where
  "clock0 i = 0"

definition scenario_events :: "event list" where
  "scenario_events =
     [UserJoin ''sock-a'' ''alice'' ''user-a'' 100,
      UserJoin ''sock-b'' ''bob'' ''user-b'' 200,
      GroupJoin ''sock-a'' ''group-1'' ''msg-0'' 250,
      MessagePrivate ''sock-a'' ''user-b'' ''hello bob'' (Some [''photo.png'']) None None
        ''msg-1'' 300,
      MessageGroup ''sock-a'' ''group-1'' ''hello all'' None None None ''msg-2'' 400]"

definition chat_state :: Server where
  "chat_state = run (initial_server ''server1'' clock0) scenario_events"

text \<open>A fresh instance after alice has joined.\<close>

definition joined_state :: Server where
  "joined_state = step (initial_server ''server1'' clock0) (UserJoin ''sock-a'' ''alice'' ''user-a'' 100)"

text \<open>The three messages the session stores.\<close>

definition msg0 :: Message where
  "msg0 = systemMessage ''msg-0'' ''group-1'' ''alice joined the group'' 250"

definition msg1 :: Message where
  "msg1 =
     \<lparr>msg_id = ''msg-1'', msg_type = Private_msg, sender = ''user-a'', recipient = ''user-b'',
      content = ''hello bob'', attachments = Some [''photo.png''], timestamp = 300,
      delivered = True, read = False, replyTo = None, repliedMessage = None,
      deletedForMe = None, deletedForEveryone = None, deletedBy = None\<rparr>"

definition msg2 :: Message where
  "msg2 =
     \<lparr>msg_id = ''msg-2'', msg_type = Group_msg, sender = ''user-a'', recipient = ''group-1'',
      content = ''hello all'', attachments = None, timestamp = 400, delivered = True,
      read = False, replyTo = None, repliedMessage = None, deletedForMe = None,
      deletedForEveryone = None, deletedBy = None\<rparr>"



text \<open>The same session while alice is typing in the group.\<close>

definition typing_state :: Server where
  "typing_state = step chat_state (TypingStart ''sock-a'' ''group-1'' False 450)"

text \<open>The same session after alice, the only member, has left the group.\<close>

definition left_state :: Server where
  "left_state = step chat_state (GroupLeave ''sock-a'' ''group-1'' ''msg-3'' 500)"

section \<open>Auxiliary facts\<close>

lemma conversationKey_commute: "conversationKey a b = conversationKey b a"
  unfolding conversationKey_def by (cases a b rule: linorder_cases) auto



lemma toLowerCase_examples:
  "toLowerCase ''Tech Talk'' = ''tech talk''"
  "toLowerCase [CHR 0xC0, CHR 0xD7, CHR 0xDE, CHR 0xDF] = [CHR 0xE0, CHR 0xD7, CHR 0xFE, CHR 0xDF]"
  by code_simp+

lemma slice_from_last: "0 < n \<Longrightarrow> slice_from xs (- n) = drop (length xs - nat n) xs"
  by (simp add: slice_from_def max_def nat_diff_distrib')

lemma set_update_subset: "set (AList.update k v al) \<subseteq> insert (k, v) (set al)"
  by (induction al) auto

lemma reachable_run: "reachable sid clock s \<Longrightarrow> reachable sid clock (run s es)"
  unfolding run_def by (induction es arbitrary: s) (simp_all add: reachable_step)

lemma reachable_chat_state: "reachable ''server1'' clock0 chat_state"
  unfolding chat_state_def by (rule reachable_run) (rule reachable_init)

lemma chat_state_sock_a: "socket_userId chat_state ''sock-a'' = Some ''user-a''"
  by code_simp

lemma chat_state_sock_b: "socket_userId chat_state ''sock-b'' = Some ''user-b''"
  by code_simp

lemma chat_state_private_log:
  "messages chat_state (conversationKey ''user-a'' ''user-b'') = Some [msg1]"
  by code_simp

lemma chat_state_private_log':
  "messages chat_state (conversationKey ''user-b'' ''user-a'') = Some [msg1]"
  by code_simp

lemma chat_state_group_log: "messages chat_state ''group-1'' = Some [msg0, msg2]"
  by code_simp

section \<open>The conversation key\<close>

text \<open>
  Claim C5. For every pair of user ids the key built when the first addresses the second is
  the key built when the second addresses the first, so that the two parties read the same
  log: a \<^verbatim>\<open>messages:get\<close> or \<^verbatim>\<open>messages:more\<close> for the private chat answers the same on the
  socket of either party.
\<close>

theorem conversationKey_order_independent:
  "conversationKey a b = conversationKey b a \<and>
   (socket_userId s sa = Some a \<and> socket_userId s sb = Some b \<and> a \<noteq> [] \<and> b \<noteq> [] \<longrightarrow>
      messages_get s sa b True limit = messages_get s sb a True limit \<and>
      messages_more s sa b True before limit = messages_more s sb a True before limit)"
  using conversationKey_commute[of a b]
  by (auto simp: messages_get_def messages_more_def requested_log_def)

theorem conversationKey_order_independent_witness:
  "conversationKey ''user-a'' ''user-b'' = conversationKey ''user-b'' ''user-a'' \<and>
   messages_get chat_state ''sock-a'' ''user-b'' True None =
     messages_get chat_state ''sock-b'' ''user-a'' True None \<and>
   messages_more chat_state ''sock-a'' ''user-b'' True 1000 (Some 5) =
     messages_more chat_state ''sock-b'' ''user-a'' True 1000 (Some 5) \<and>
   map msg_id (messages_get chat_state ''sock-b'' ''user-a'' True None) = [''msg-1'']"
proof -
  have a: "socket_userId chat_state ''sock-a'' = Some ''user-a''" by code_simp
  have b: "socket_userId chat_state ''sock-b'' = Some ''user-b''" by code_simp
  have ids: "map msg_id (messages_get chat_state ''sock-b'' ''user-a'' True None) = [''msg-1'']"
    by code_simp
  show ?thesis
    using conversationKey_order_independent
      [of "''user-a''" "''user-b''" chat_state "''sock-a''" "''sock-b''" None]
      conversationKey_order_independent
      [of "''user-a''" "''user-b''" chat_state "''sock-a''" "''sock-b''" "Some 5" 1000]
      a b ids
    by simp
qed

section \<open>Deleting a message\<close>

text \<open>
  Claim C7. A \<^verbatim>\<open>message:delete\<close> with \<^verbatim>\<open>deleteForEveryone\<close> set, sent by an identified user
  who is not the sender of the message, fails with the reason that only the sender can
  delete for everyone, and leaves the whole state as it was, so the stored message keeps its
  content, its attachments and its deletion markers. This holds for a private conversation
  and for a group.
\<close>

theorem delete_for_everyone_forbidden:
  assumes "socket_userId s sock = Some userId" and "userId \<noteq> []"
    and "messages s (if isPrivate then conversationKey userId chatId else chatId) = Some msgs"
    and "findIndex (\<lambda>msg. msg_id msg = messageId) msgs = Some i"
    and "sender (msgs ! i) \<noteq> userId"
  shows "message_delete s sock messageId chatId isPrivate True =
           (Failure ''Only the message sender can delete for everyone'', s)"
  using assms by (cases isPrivate) (simp_all add: message_delete_def)

theorem delete_for_everyone_forbidden_witness:
  "message_delete chat_state ''sock-b'' ''msg-1'' ''user-a'' True True =
     (Failure ''Only the message sender can delete for everyone'', chat_state) \<and>
   message_delete chat_state ''sock-b'' ''msg-2'' ''group-1'' False True =
     (Failure ''Only the message sender can delete for everyone'', chat_state)"
proof -
  have b: "socket_userId chat_state ''sock-b'' = Some ''user-b''" by code_simp
  have ne: "''user-b'' \<noteq> []" by simp
  have priv: "messages chat_state (if True then conversationKey ''user-b'' ''user-a'' else ''user-a'') =
      Some [\<lparr>msg_id = ''msg-1'', msg_type = Private_msg, sender = ''user-a'',
             recipient = ''user-b'', content = ''hello bob'', attachments = Some [''photo.png''],
             timestamp = 300, delivered = True, read = False, replyTo = None,
             repliedMessage = None, deletedForMe = None, deletedForEveryone = None,
             deletedBy = None\<rparr>]"
    by code_simp
  have grp: "messages chat_state (if False then conversationKey ''user-b'' ''group-1'' else ''group-1'') =
      Some [systemMessage ''msg-0'' ''group-1'' ''alice joined the group'' 250,
            \<lparr>msg_id = ''msg-2'', msg_type = Group_msg, sender = ''user-a'',
             recipient = ''group-1'', content = ''hello all'', attachments = None,
             timestamp = 400, delivered = True, read = False, replyTo = None,
             repliedMessage = None, deletedForMe = None, deletedForEveryone = None,
             deletedBy = None\<rparr>]"
    by code_simp
  show ?thesis
    using delete_for_everyone_forbidden [OF b ne priv, of "''msg-1''" 0]
      delete_for_everyone_forbidden [OF b ne grp, of "''msg-2''" 1]
    by (simp add: systemMessage_def)
qed

text \<open>
  Claim C9. Deleting for oneself differs between the two kinds of conversation. In a private
  conversation the request of an identified user who is not the sender of the message fails
  with the reason that one can only delete one's own messages for oneself, and the state
  stays as it was. In a group the same request of any identified user succeeds, whoever
  sent the message, and the shared stored entry gets the placeholder as its content.
\<close>

theorem delete_for_me_asymmetry:
  assumes "socket_userId s sock = Some userId" and "userId \<noteq> []"
  shows "(messages s (conversationKey userId chatId) = Some msgs \<and>
          findIndex (\<lambda>msg. msg_id msg = messageId) msgs = Some i \<and>
          sender (msgs ! i) \<noteq> userId \<longrightarrow>
            message_delete s sock messageId chatId True False =
              (Failure ''You can only delete your own messages for yourself'', s)) \<and>
         (messages s groupId = Some gmsgs \<and>
          findIndex (\<lambda>msg. msg_id msg = gmessageId) gmsgs = Some j \<longrightarrow>
            message_delete s sock gmessageId groupId False False =
              (Done, store_at s groupId gmsgs j (deleted_for_me (gmsgs ! j) userId)) \<and>
            messages (store_at s groupId gmsgs j (deleted_for_me (gmsgs ! j) userId)) groupId =
              Some (gmsgs[j := deleted_for_me (gmsgs ! j) userId]) \<and>
            content (deleted_for_me (gmsgs ! j) userId) = ''This message was deleted'')"
  using assms by (simp add: message_delete_def deleted_for_me_def store_at_def)

theorem delete_for_me_asymmetry_witness:
  "message_delete chat_state ''sock-b'' ''msg-1'' ''user-a'' True False =
     (Failure ''You can only delete your own messages for yourself'', chat_state) \<and>
   fst (message_delete chat_state ''sock-b'' ''msg-2'' ''group-1'' False False) = Done \<and>
   map content (log_of (snd (message_delete chat_state ''sock-b'' ''msg-2'' ''group-1'' False False))
     ''group-1'') = [''alice joined the group'', ''This message was deleted'']"
proof -
  have ne: "''user-b'' \<noteq> []" by simp
  show ?thesis
    using delete_for_me_asymmetry [OF chat_state_sock_b ne,
        of "''user-a''" "[msg1]" "''msg-1''" 0 "''group-1''" "[msg0, msg2]" "''msg-2''" 1]
      chat_state_private_log' chat_state_group_log
    by (simp add: log_of_def store_at_def deleted_for_me_def msg0_def msg1_def msg2_def
        systemMessage_def)
qed

text \<open>
  Claim C3 says that deleting for oneself in a private conversation leaves the stored entry,
  and with it its content and its attachments, as the other party sees them. In the session
  above alice deletes her message to bob for herself: the one stored entry of the pair's
  log loses its content and its attachment.
\<close>

theorem delete_for_me_counterexample:
  "map (\<lambda>m. (content m, attachments m))
     (log_of chat_state (conversationKey ''user-a'' ''user-b'')) =
     [(''hello bob'', Some [''photo.png''])] \<and>
   fst (message_delete chat_state ''sock-a'' ''msg-1'' ''user-b'' True False) = Done \<and>
   map (\<lambda>m. (content m, attachments m))
     (log_of (snd (message_delete chat_state ''sock-a'' ''msg-1'' ''user-b'' True False))
        (conversationKey ''user-a'' ''user-b'')) =
     [(''This message was deleted'', Some [])]"
  by (simp add: message_delete_def chat_state_sock_a chat_state_private_log log_of_def
      store_at_def deleted_for_me_def msg1_def)

text \<open>
  Claim C3, amended. In a private conversation a delete for oneself by the sender of the
  message overwrites the one stored entry that both parties read: its content becomes the
  placeholder, its attachments become empty, \<^verbatim>\<open>deletedForMe\<close> is set and \<^verbatim>\<open>deletedBy\<close> names the
  requester; every other entry and every other log stay as they were. The same request by
  a user who is not the sender fails and changes nothing.
\<close>

theorem delete_for_me_private:
  assumes "socket_userId s sock = Some userId" and "userId \<noteq> []"
    and "messages s (conversationKey userId chatId) = Some msgs"
    and "findIndex (\<lambda>msg. msg_id msg = messageId) msgs = Some i"
  shows "(sender (msgs ! i) = userId \<longrightarrow>
           message_delete s sock messageId chatId True False =
             (Done, s\<lparr>messages := (messages s)(conversationKey userId chatId \<mapsto>
                        msgs[i := (msgs ! i)\<lparr>content := ''This message was deleted'',
                                             attachments := Some [], deletedForMe := Some True,
                                             deletedBy := Some userId\<rparr>])\<rparr>)) \<and>
         (sender (msgs ! i) \<noteq> userId \<longrightarrow>
           message_delete s sock messageId chatId True False =
             (Failure ''You can only delete your own messages for yourself'', s))"
  using assms by (simp add: message_delete_def store_at_def deleted_for_me_def)

theorem delete_for_me_private_witness:
  "message_delete chat_state ''sock-a'' ''msg-1'' ''user-b'' True False =
     (Done, chat_state\<lparr>messages := (messages chat_state)(conversationKey ''user-a'' ''user-b'' \<mapsto>
        [\<lparr>msg_id = ''msg-1'', msg_type = Private_msg, sender = ''user-a'',
             recipient = ''user-b'', content = ''This message was deleted'', attachments = Some [],
             timestamp = 300, delivered = True, read = False, replyTo = None,
             repliedMessage = None, deletedForMe = Some True, deletedForEveryone = None,
             deletedBy = Some ''user-a''\<rparr>])\<rparr>) \<and>
   message_delete chat_state ''sock-b'' ''msg-1'' ''user-a'' True False =
     (Failure ''You can only delete your own messages for yourself'', chat_state)"
proof -
  have nea: "''user-a'' \<noteq> []" and neb: "''user-b'' \<noteq> []" by simp_all
  show ?thesis
    using delete_for_me_private [OF chat_state_sock_a nea chat_state_private_log, of "''msg-1''" 0]
      delete_for_me_private [OF chat_state_sock_b neb chat_state_private_log', of "''msg-1''" 0]
    by (simp add: msg1_def)
qed

section \<open>Reading back in history\<close>

text \<open>
  Claim C6 says that \<^verbatim>\<open>messages:more\<close> never returns more than the limit. A limit of 0 is
  falsy, so the handler takes 20 in its place: in the session above the request with the
  limit 0 returns both messages of the group.
\<close>

theorem messages_more_zero_counterexample:
  "map msg_id (messages_more chat_state ''sock-a'' ''group-1'' False 1000 (Some 0)) =
     [''msg-0'', ''msg-2''] \<and>
   \<not> int (length (messages_more chat_state ''sock-a'' ''group-1'' False 1000 (Some 0))) \<le> 0"
  by (simp add: messages_more_def requested_log_def log_of_def chat_state_group_log
      slice_from_def msg0_def msg2_def systemMessage_def)

text \<open>
  Claim C6, amended. For every log, time \<open>t\<close> and limit \<open>n\<close> of at least 1, \<^verbatim>\<open>messages:more\<close>
  returns only messages whose timestamp is smaller than \<open>t\<close>, at most \<open>n\<close> of them, and
  they are the last \<open>n\<close> (or all, when there are fewer) of the log's messages older than
  \<open>t\<close>, in the order of the log. A limit of 0 and a missing limit stand for 20.
\<close>

theorem messages_more_limit:
  assumes "0 < n"
  shows "messages_more s sock chatId isPrivate before (Some n) =
           (let older = filter (\<lambda>msg. timestamp msg < before)
                          (requested_log s sock chatId isPrivate)
            in drop (length older - nat n) older) \<and>
         (\<forall>m \<in> set (messages_more s sock chatId isPrivate before (Some n)).
            timestamp m < before) \<and>
         int (length (messages_more s sock chatId isPrivate before (Some n))) \<le> n \<and>
         messages_more s sock chatId isPrivate before (Some 0) =
           messages_more s sock chatId isPrivate before (Some 20) \<and>
         messages_more s sock chatId isPrivate before None =
           messages_more s sock chatId isPrivate before (Some 20)"
proof -
  let ?older = "filter (\<lambda>msg. timestamp msg < before) (requested_log s sock chatId isPrivate)"
  have eq: "messages_more s sock chatId isPrivate before (Some n) =
              drop (length ?older - nat n) ?older"
    using assms by (simp add: messages_more_def slice_from_last Let_def)
  have "set (drop (length ?older - nat n) ?older) \<subseteq> set ?older"
    by (rule set_drop_subset)
  then have "\<forall>m \<in> set (drop (length ?older - nat n) ?older). timestamp m < before"
    by auto
  then have old: "\<forall>m \<in> set (messages_more s sock chatId isPrivate before (Some n)).
                    timestamp m < before"
    unfolding eq .
  have "int (length (drop (length ?older - nat n) ?older)) \<le> n"
    using assms by simp
  then have len: "int (length (messages_more s sock chatId isPrivate before (Some n))) \<le> n"
    unfolding eq .
  have eq': "messages_more s sock chatId isPrivate before (Some n) =
           (let older = filter (\<lambda>msg. timestamp msg < before)
                          (requested_log s sock chatId isPrivate)
            in drop (length older - nat n) older)"
    unfolding Let_def by (rule eq)
  have zero: "messages_more s sock chatId isPrivate before (Some 0) =
                messages_more s sock chatId isPrivate before (Some 20)"
    by (simp add: messages_more_def)
  have none: "messages_more s sock chatId isPrivate before None =
                messages_more s sock chatId isPrivate before (Some 20)"
    by (simp add: messages_more_def)
  show ?thesis
    by (rule conjI [OF eq' conjI [OF old conjI [OF len conjI [OF zero none]]]])
qed

theorem messages_more_limit_witness:
  "(0::int) < 1 \<and>
   messages_more chat_state ''sock-a'' ''group-1'' False 1000 (Some 1) = [msg2] \<and>
   messages_more chat_state ''sock-a'' ''group-1'' False 400 (Some 1) = [msg0]"
proof -
  have pos: "(0::int) < 1" by simp
  have log: "requested_log chat_state ''sock-a'' ''group-1'' False = [msg0, msg2]"
    by (simp add: requested_log_def log_of_def chat_state_group_log)
  have ts: "timestamp msg0 = 250" "timestamp msg2 = 400"
    by (simp_all add: msg0_def msg2_def systemMessage_def)
  have late: "messages_more chat_state ''sock-a'' ''group-1'' False 1000 (Some 1) = [msg2]"
    using messages_more_limit [OF pos, of chat_state "''sock-a''" "''group-1''" False 1000,
        THEN conjunct1]
    by (simp add: log ts)
  have early: "messages_more chat_state ''sock-a'' ''group-1'' False 400 (Some 1) = [msg0]"
    using messages_more_limit [OF pos, of chat_state "''sock-a''" "''group-1''" False 400,
        THEN conjunct1]
    by (simp add: log ts)
  show ?thesis using pos late early by simp
qed

section \<open>A private message to a user who is away\<close>







section \<open>Disconnecting\<close>

text \<open>
  In every reachable state the user id of a socket names a stored user: users are never
  removed, every handler stores a user under the user's own id, and a socket gets its user
  id from a stored user.
\<close>

lemma keyed_update: "keyed al \<Longrightarrow> user_id v = k \<Longrightarrow> keyed (AList.update k v al)"
  unfolding keyed_def using set_update_subset [of k v al] by auto

lemma keyed_lookup: "keyed al \<Longrightarrow> map_of al k = Some u \<Longrightarrow> user_id u = k"
  unfolding keyed_def by (auto dest: map_of_SomeD)

lemma keyed_find:
  assumes "keyed al" and "find p al = Some (k, u)"
  shows "user_id u = k"
proof -
  from assms(2) obtain i where "i < length al" and "al ! i = (k, u)"
    by (auto simp: find_Some_iff)
  then have "(k, u) \<in> set al" by (metis nth_mem)
  with assms(1) show ?thesis by (auto simp: keyed_def)
qed

lemma dom_update_mono: "fst ` set al \<subseteq> fst ` set (AList.update k v al)"
  by (auto simp: AList.dom_update)

lemma keyed_scrub: "keyed al \<Longrightarrow> keyed (scrub_member g m al)"
  by (auto simp: scrub_member_def keyed_update keyed_lookup split: option.splits)

lemma dom_scrub: "fst ` set al \<subseteq> fst ` set (scrub_member g m al)"
  by (auto simp: scrub_member_def AList.dom_update split: option.splits)

lemma keyed_fold_scrub: "keyed al \<Longrightarrow> keyed (fold (scrub_member g) ms al)"
  by (induction ms arbitrary: al) (simp_all add: keyed_scrub)

lemma dom_fold_scrub: "fst ` set al \<subseteq> fst ` set (fold (scrub_member g) ms al)"
proof (induction ms arbitrary: al)
  case Nil
  show ?case by simp
next
  case (Cons m ms)
  show ?case using dom_scrub [of al g m] Cons [of "scrub_member g m al"] by auto
qed

lemma identified_lookup: "identified s sock = Some (u, usr) \<Longrightarrow> map_of (users s) u = Some usr"
  by (auto simp: identified_def split: option.splits if_splits)

lemma users_extended_same:
  "users s' = users s \<Longrightarrow> sockets s' = sockets s \<Longrightarrow> users_extended s s'"
  by (simp add: users_extended_def)

lemma users_extended_inv:
  assumes "users_extended s s'" and "sockets_name_users s"
  shows "sockets_name_users s'"
  using assms unfolding users_extended_def sockets_name_users_def socket_userId_def by auto

lemma ext_handleUserDisconnect: "users_extended s (handleUserDisconnect s sock now)"
  by (auto simp: handleUserDisconnect_def users_extended_def keyed_update keyed_lookup
      AList.dom_update dest: identified_lookup split: option.splits)

lemma ext_group_create: "users_extended s (snd (group_create s sock name desc uuid now))"
  by (auto simp: group_create_def users_extended_def keyed_update keyed_lookup Let_def
      AList.dom_update dest: identified_lookup split: option.splits)

lemma ext_group_join: "users_extended s (snd (group_join s sock groupId uuid now))"
  by (auto simp: group_join_def users_extended_def keyed_update keyed_lookup Let_def
      append_message_def AList.dom_update dest: identified_lookup split: option.splits)

lemma ext_group_leave: "users_extended s (snd (group_leave s sock groupId uuid now))"
  by (auto simp: group_leave_def users_extended_def keyed_update keyed_lookup Let_def
      append_message_def AList.dom_update dest: identified_lookup split: option.splits)

lemma ext_group_delete: "users_extended s (snd (group_delete s sock groupId))"
  using dom_fold_scrub [of "users s" groupId]
  by (auto simp: group_delete_def users_extended_def keyed_fold_scrub split: option.splits)

lemma ext_message_group:
  "users_extended s (snd (message_group s sock groupId text atts reply replied uuid now))"
  by (rule users_extended_same)
    (simp_all add: message_group_def Let_def append_message_def split: option.splits prod.splits)

lemma ext_message_private:
  "users_extended s (snd (message_private s sock recipientId text atts reply replied uuid now))"
  by (rule users_extended_same)
    (simp_all add: message_private_def Let_def append_message_def split: option.splits prod.splits)

lemma ext_message_read: "users_extended s (message_read s sock chatId isPrivate)"
  by (rule users_extended_same) (simp_all add: message_read_def Let_def split: option.splits)

lemma ext_message_delete:
  "users_extended s (snd (message_delete s sock messageId chatId isPrivate deleteForEveryone))"
  by (rule users_extended_same)
    (simp_all add: message_delete_def store_at_def Let_def split: option.splits)

lemma ext_chat_delete: "users_extended s (snd (chat_delete s sock chatId isPrivate))"
  by (rule users_extended_same) (simp_all add: chat_delete_def split: option.splits)

lemma ext_typing_start: "users_extended s (fst (typing_start s sock chatId isPrivate now))"
  by (rule users_extended_same) (simp_all add: typing_start_def Let_def split: option.splits)

lemma ext_typing_stop: "users_extended s (fst (typing_stop s sock chatId isPrivate))"
  by (rule users_extended_same) (simp_all add: typing_stop_def Let_def split: option.splits)

lemma typing_timeout_same:
  "users (fst (typing_timeout s t)) = users s \<and> sockets (fst (typing_timeout s t)) = sockets s"
  by (simp add: typing_timeout_def Let_def split: option.splits)

lemma fold_run_timer_same:
  "users (fst (fold run_timer ts acc)) = users (fst acc) \<and>
   sockets (fst (fold run_timer ts acc)) = sockets (fst acc)"
proof (induction ts arbitrary: acc)
  case Nil
  show ?case by simp
next
  case (Cons t ts)
  have "users (fst (run_timer t acc)) = users (fst acc) \<and>
        sockets (fst (run_timer t acc)) = sockets (fst acc)"
    using typing_timeout_same [of "fst acc" t]
    by (cases "typing_timeout (fst acc) t") (simp add: run_timer_def)
  with Cons [of "run_timer t acc"] show ?case by simp
qed

lemma ext_run_timers: "users_extended s (fst (run_timers s now))"
  by (rule users_extended_same) (simp_all add: run_timers_def fold_run_timer_same)

lemma ext_typing_sweep: "users_extended s (typing_sweep s now)"
  by (rule users_extended_same) (simp_all add: typing_sweep_def)

lemma inv_user_reconnect:
  assumes "sockets_name_users s"
  shows "sockets_name_users (snd (user_reconnect s sock userId now))"
  using assms
  by (auto simp: user_reconnect_def sockets_name_users_def socket_userId_def Let_def
      keyed_update keyed_lookup AList.dom_update split: option.splits)

lemma inv_join_finish:
  assumes "keyed (users s)" and "user_id user \<in> fst ` set (users s)"
    and "\<forall>sock u. socket_userId s sock = Some u \<longrightarrow> u \<in> fst ` set (users s)"
  shows "sockets_name_users (snd (join_finish s sock user))"
  using assms
  by (auto simp: join_finish_def sockets_name_users_def socket_userId_def Let_def)

lemma inv_user_join:
  assumes "sockets_name_users s"
  shows "sockets_name_users (snd (user_join s sock name uuid now))"
proof (cases "name = [] \<or> length (trim name) = 0")
  case True
  then show ?thesis using assms by (auto simp: user_join_def)
next
  case False
  note ok = this
  have k: "keyed (users s)"
    and d: "\<forall>sock u. socket_userId s sock = Some u \<longrightarrow> u \<in> fst ` set (users s)"
    using assms by (simp_all add: sockets_name_users_def)
  show ?thesis
  proof (cases "find (\<lambda>(k, u). username u = name \<and> serverId u = server_id s) (users s)")
    case None
    let ?user = "\<lparr>user_id = uuid, username = trim name, socketId = sock,
                  serverId = server_id s, user_groups = [], isOnline = True, lastSeen = now\<rparr>"
    let ?s1 = "s\<lparr>users := AList.update uuid ?user (users s)\<rparr>"
    have "sockets_name_users (snd (join_finish ?s1 sock ?user))"
      using k d by (intro inv_join_finish) (auto simp: keyed_update AList.dom_update socket_userId_def)
    then show ?thesis using ok None by (simp add: user_join_def Let_def)
  next
    case (Some p)
    obtain key existingUser where p: "p = (key, existingUser)" by (cases p)
    have id: "user_id existingUser = key"
      using keyed_find [OF k Some [unfolded p]] .
    show ?thesis
    proof (cases "isOnline existingUser")
      case True
      then show ?thesis using ok Some p assms by (simp add: user_join_def)
    next
      case False
      let ?user = "existingUser\<lparr>isOnline := True, socketId := sock, lastSeen := now\<rparr>"
      let ?s1 = "s\<lparr>users := AList.update key ?user (users s)\<rparr>"
      have "sockets_name_users (snd (join_finish ?s1 sock ?user))"
        using k d id
        by (intro inv_join_finish) (auto simp: keyed_update AList.dom_update socket_userId_def)
      then show ?thesis using ok Some p False by (simp add: user_join_def Let_def)
    qed
  qed
qed

lemma inv_step: "sockets_name_users s \<Longrightarrow> sockets_name_users (step s e)"
  by (cases e)
    (simp_all add: inv_user_join inv_user_reconnect
      users_extended_inv [OF ext_handleUserDisconnect]
      users_extended_inv [OF ext_group_create] users_extended_inv [OF ext_group_join]
      users_extended_inv [OF ext_group_leave] users_extended_inv [OF ext_group_delete]
      users_extended_inv [OF ext_message_group] users_extended_inv [OF ext_message_private]
      users_extended_inv [OF ext_message_read] users_extended_inv [OF ext_message_delete]
      users_extended_inv [OF ext_chat_delete] users_extended_inv [OF ext_typing_start]
      users_extended_inv [OF ext_typing_stop] users_extended_inv [OF ext_run_timers]
      users_extended_inv [OF ext_typing_sweep])

lemma inv_initial: "sockets_name_users (initial_server sid clock)"
  by (simp add: sockets_name_users_def keyed_def initial_server_def initializeSampleData_def
      new_server_def socket_userId_def sampleGroups_def)

lemma sockets_name_users_reachable: "reachable sid clock s \<Longrightarrow> sockets_name_users s"
  by (induction rule: reachable.induct) (simp_all add: inv_initial inv_step)

lemma identified_user_exists:
  assumes "reachable sid clock s" and "socket_userId s sock = Some userId"
  shows "\<exists>user. map_of (users s) userId = Some user"
proof -
  have "userId \<in> fst ` set (users s)"
    using sockets_name_users_reachable [OF assms(1)] assms(2)
    by (simp add: sockets_name_users_def)
  then show ?thesis
    by (metis domIff dom_map_of_conv_image_fst not_Some_eq)
qed

text \<open>
  Claim C10. For an identified user (a socket that carries a user id, in any reachable
  state) the disconnect removes the user's entry of the typing table and the user's entry
  of the user-to-socket map, besides marking the stored user offline, clearing its socket
  id and recording the time: afterwards the typing table has no entry for the user.
\<close>

theorem disconnect_clears_typing:
  assumes "reachable sid clock s"
    and "socket_userId s sock = Some userId" and "userId \<noteq> []"
  shows "typingStatus (handleUserDisconnect s sock now) userId = None \<and>
         userSocketMap (handleUserDisconnect s sock now) userId = None \<and>
         (\<exists>user. map_of (users s) userId = Some user \<and>
            map_of (users (handleUserDisconnect s sock now)) userId =
              Some (user\<lparr>isOnline := False, lastSeen := now, socketId := []\<rparr>))"
proof -
  from identified_user_exists [OF assms(1,2)]
  obtain user where "map_of (users s) userId = Some user" ..
  then show ?thesis
    using assms(2,3) by (simp add: handleUserDisconnect_def identified_def update_conv')
qed

lemma reachable_typing_state: "reachable ''server1'' clock0 typing_state"
  unfolding typing_state_def by (rule reachable_step) (rule reachable_chat_state)

lemma typing_state_sock_a: "socket_userId typing_state ''sock-a'' = Some ''user-a''"
  by code_simp

lemma typing_state_user_a:
  "map_of (users typing_state) ''user-a'' =
     Some \<lparr>user_id = ''user-a'', username = ''alice'', socketId = ''sock-a'',
           serverId = ''server1'', user_groups = [''group-1''], isOnline = True,
           lastSeen = 100\<rparr>"
  by code_simp

lemma typing_state_entry:
  "typingStatus typing_state ''user-a'' =
     Some \<lparr>typing_chatId = ''group-1'', typing_isPrivate = False, typing_timestamp = 450\<rparr>"
  by code_simp

lemma typing_state_binding: "userSocketMap typing_state ''user-a'' = Some ''sock-a''"
  by code_simp

theorem disconnect_clears_typing_witness:
  "typingStatus typing_state ''user-a'' =
     Some \<lparr>typing_chatId = ''group-1'', typing_isPrivate = False, typing_timestamp = 450\<rparr> \<and>
   userSocketMap typing_state ''user-a'' = Some ''sock-a'' \<and>
   typingStatus (handleUserDisconnect typing_state ''sock-a'' 500) ''user-a'' = None \<and>
   userSocketMap (handleUserDisconnect typing_state ''sock-a'' 500) ''user-a'' = None \<and>
   map_of (users (handleUserDisconnect typing_state ''sock-a'' 500)) ''user-a'' =
     Some \<lparr>user_id = ''user-a'', username = ''alice'', socketId = [],
           serverId = ''server1'', user_groups = [''group-1''], isOnline = False,
           lastSeen = 500\<rparr>"
proof -
  have ne: "''user-a'' \<noteq> []" by simp
  show ?thesis
    using disconnect_clears_typing [OF reachable_typing_state typing_state_sock_a ne, of 500]
      typing_state_entry typing_state_binding typing_state_user_a
    by simp
qed

section \<open>Groups without members\<close>

text \<open>
  No handler but \<^verbatim>\<open>group:create\<close>, \<^verbatim>\<open>group:join\<close>, \<^verbatim>\<open>group:leave\<close> and \<^verbatim>\<open>group:delete\<close> writes the
  group directory, and each of the four only adds or replaces a group that has a member, or
  deletes a group.
\<close>

lemma update_keeps_nonempty:
  "members v \<noteq> [] \<Longrightarrow> set (AList.update k v al) \<subseteq> set al \<union> {(k, g). members g \<noteq> []}"
  using set_update_subset [of k v al] by auto

lemma delete_keeps_nonempty:
  "set (AList.delete k al) \<subseteq> set al \<union> {(k, g). members g \<noteq> []}"
  by (auto simp: AList.delete_eq)

lemma groups_initial_server: "groups (initial_server sid clock) = groups (initial_server [] clock)"
  by (simp add: initial_server_def initializeSampleData_def new_server_def sampleGroups_def)

lemma groups_user_join: "groups (snd (user_join s sock name uuid now)) = groups s"
  by (simp add: user_join_def join_finish_def Let_def split: option.splits prod.splits)

lemma groups_user_reconnect: "groups (snd (user_reconnect s sock userId now)) = groups s"
  by (simp add: user_reconnect_def Let_def split: option.splits)

lemma groups_handleUserDisconnect: "groups (handleUserDisconnect s sock now) = groups s"
  by (simp add: handleUserDisconnect_def split: option.splits prod.splits)

lemma groups_append_message: "groups (append_message s key m) = groups s"
  by (simp add: append_message_def)

lemma groups_message_group:
  "groups (snd (message_group s sock groupId text atts reply replied uuid now)) = groups s"
  by (simp add: message_group_def Let_def groups_append_message split: option.splits prod.splits)

lemma groups_message_private:
  "groups (snd (message_private s sock recipientId text atts reply replied uuid now)) = groups s"
  by (simp add: message_private_def Let_def groups_append_message split: option.splits prod.splits)

lemma groups_message_read: "groups (message_read s sock chatId isPrivate) = groups s"
  by (simp add: message_read_def Let_def split: option.splits)

lemma groups_message_delete:
  "groups (snd (message_delete s sock messageId chatId isPrivate deleteForEveryone)) = groups s"
  by (simp add: message_delete_def store_at_def Let_def split: option.splits)

lemma groups_chat_delete: "groups (snd (chat_delete s sock chatId isPrivate)) = groups s"
  by (simp add: chat_delete_def split: option.splits)

lemma groups_typing_start: "groups (fst (typing_start s sock chatId isPrivate now)) = groups s"
  by (simp add: typing_start_def Let_def split: option.splits)

lemma groups_typing_stop: "groups (fst (typing_stop s sock chatId isPrivate)) = groups s"
  by (simp add: typing_stop_def Let_def split: option.splits)

lemma groups_typing_timeout: "groups (fst (typing_timeout s t)) = groups s"
  by (simp add: typing_timeout_def Let_def split: option.splits)

lemma groups_fold_run_timer: "groups (fst (fold run_timer ts acc)) = groups (fst acc)"
proof (induction ts arbitrary: acc)
  case Nil
  show ?case by simp
next
  case (Cons t ts)
  have "groups (fst (run_timer t acc)) = groups (fst acc)"
    using groups_typing_timeout [of "fst acc" t]
    by (cases "typing_timeout (fst acc) t") (simp add: run_timer_def)
  with Cons show ?case by simp
qed

lemma groups_run_timers: "groups (fst (run_timers s now)) = groups s"
  by (simp add: run_timers_def groups_fold_run_timer)

lemma groups_typing_sweep: "groups (typing_sweep s now) = groups s"
  by (simp add: typing_sweep_def)

lemma groups_group_create:
  "set (groups (snd (group_create s sock name desc uuid now)))
     \<subseteq> set (groups s) \<union> {(k, g). members g \<noteq> []}"
  by (simp add: group_create_def Let_def update_keeps_nonempty split: option.splits prod.splits)

lemma groups_group_join:
  "set (groups (snd (group_join s sock groupId uuid now)))
     \<subseteq> set (groups s) \<union> {(k, g). members g \<noteq> []}"
  by (simp add: group_join_def Let_def update_keeps_nonempty groups_append_message
      split: option.splits prod.splits)

lemma groups_group_leave:
  "set (groups (snd (group_leave s sock groupId uuid now)))
     \<subseteq> set (groups s) \<union> {(k, g). members g \<noteq> []}"
  by (simp add: group_leave_def Let_def AList.delete_update_same update_keeps_nonempty
      delete_keeps_nonempty groups_append_message split: option.splits prod.splits)

lemma groups_group_delete:
  "set (groups (snd (group_delete s sock groupId)))
     \<subseteq> set (groups s) \<union> {(k, g). members g \<noteq> []}"
  by (simp add: group_delete_def Let_def delete_keeps_nonempty split: option.splits prod.splits)

lemma groups_step:
  "set (groups (step s e)) \<subseteq> set (groups s) \<union> {(k, g). members g \<noteq> []}"
  by (cases e)
    (simp_all add: groups_group_create groups_group_join groups_group_leave groups_group_delete
      groups_user_join groups_user_reconnect groups_handleUserDisconnect groups_message_group
      groups_message_private groups_message_read groups_message_delete groups_chat_delete
      groups_typing_start groups_typing_stop groups_run_timers groups_typing_sweep)

lemma empty_groups_step:
  assumes "empty_groups_are_samples clock s"
  shows "empty_groups_are_samples clock (step s e)"
  using assms groups_step [of s e] unfolding empty_groups_are_samples_def by auto

lemma empty_groups_reachable:
  "reachable sid clock s \<Longrightarrow> empty_groups_are_samples clock s"
proof (induction rule: reachable.induct)
  case reachable_init
  show ?case
    unfolding empty_groups_are_samples_def using groups_initial_server [of sid clock] by auto
next
  case (reachable_step s e)
  then show ?case by (simp add: empty_groups_step)
qed

lemma leave_last_member:
  assumes "fst (group_leave s sock groupId uuid now) = GroupOk g" and "members g = []"
  shows "map_of (groups (snd (group_leave s sock groupId uuid now))) groupId = None \<and>
         messages (snd (group_leave s sock groupId uuid now)) groupId = None"
  using assms
  by (auto simp: group_leave_def Let_def AList.delete_conv' split: option.splits prod.splits if_splits)

text \<open>
  Claim C4 says that no reachable state has a group without members. The constructor stores
  the four sample groups with an empty member list, so the initial state has such groups.
\<close>

theorem sample_groups_counterexample:
  "reachable ''server1'' clock0 (initial_server ''server1'' clock0) \<and>
   map_option members (map_of (groups (initial_server ''server1'' clock0)) ''group-1'') = Some []"
proof -
  have "map_option members (map_of (groups (initial_server ''server1'' clock0)) ''group-1'') = Some []"
    by code_simp
  then show ?thesis by (simp add: reachable_init)
qed

text \<open>
  Claim C4, amended. In every reachable state a group without members is one of the four
  sample groups of the constructor, still as the constructor stored it (nobody has joined
  it). When a \<^verbatim>\<open>group:leave\<close> removes the last member, the handler itself deletes the group and
  its log; no \<^verbatim>\<open>group:delete\<close> is needed.
\<close>

theorem empty_groups_only_samples:
  assumes "reachable sid clock s"
  shows "empty_groups_are_samples clock s \<and>
         (fst (group_leave s sock groupId uuid now) = GroupOk g \<and> members g = [] \<longrightarrow>
            map_of (groups (snd (group_leave s sock groupId uuid now))) groupId = None \<and>
            messages (snd (group_leave s sock groupId uuid now)) groupId = None)"
  using empty_groups_reachable [OF assms] leave_last_member [of s sock groupId uuid now g]
  by blast

lemma chat_state_leave:
  "fst (group_leave chat_state ''sock-a'' ''group-1'' ''msg-3'' 500) =
     GroupOk \<lparr>group_id = ''group-1'', group_name = ''General'',
              description = Some ''General discussions'', creator = ''system'', members = [],
              createdAt = 0\<rparr>"
  by code_simp

lemma left_state_groups: "map fst (groups left_state) = [''group-2'', ''group-3'', ''group-4'']"
  by code_simp

theorem empty_groups_only_samples_witness:
  "reachable ''server1'' clock0 chat_state \<and>
   empty_groups_are_samples clock0 chat_state \<and>
   map_of (groups left_state) ''group-1'' = None \<and>
   messages left_state ''group-1'' = None \<and>
   map fst (groups left_state) = [''group-2'', ''group-3'', ''group-4'']"
proof -
  have m: "members \<lparr>group_id = ''group-1'', group_name = ''General'',
              description = Some ''General discussions'', creator = ''system'', members = [],
              createdAt = 0\<rparr> = []"
    by simp
  show ?thesis
    using empty_groups_only_samples [OF reachable_chat_state,
        of "''sock-a''" "''group-1''" "''msg-3''" 500
          "\<lparr>group_id = ''group-1'', group_name = ''General'',
            description = Some ''General discussions'', creator = ''system'', members = [],
            createdAt = 0\<rparr>"] chat_state_leave m
      left_state_groups reachable_chat_state
    by (simp add: left_state_def)
qed

section \<open>Joining under a name\<close>

text \<open>
  Claim C1. \<^verbatim>\<open>user:join\<close> refuses a name that an online user of the instance holds, and the
  display names of the online users are meant to be unique. The handler looks the name up
  as it was sent but stores the trimmed name: after alice has joined, a join under the name
  with a leading blank finds no user, and a second online user called alice is created.
\<close>

theorem join_padded_name_duplicate:
  "map (\<lambda>(k, u). (k, username u, isOnline u)) (users joined_state) =
     [(''user-a'', ''alice'', True)] \<and>
   fst (user_join joined_state ''sock-b'' '' alice'' ''user-b'' 200) \<noteq>
     Failure ''Username already taken'' \<and>
   map (\<lambda>(k, u). (k, username u, isOnline u))
     (users (snd (user_join joined_state ''sock-b'' '' alice'' ''user-b'' 200))) =
     [(''user-a'', ''alice'', True), (''user-b'', ''alice'', True)]"
  by code_simp

section \<open>Typing twice\<close>

text \<open>
  The pushes of a typing notice depend on the user-to-socket map and the groups only.
\<close>

lemma typing_pushes_cong:
  assumes "userSocketMap s' = userSocketMap s" and "groups s' = groups s"
  shows "typing_pushes s' u c p b = typing_pushes s u c p b"
proof -
  have bs: "bound_socket s' = bound_socket s"
    by (rule ext) (simp add: bound_socket_def assms)
  show ?thesis
    unfolding typing_pushes_def typing_audience_def bs assms(2) by (rule refl)
qed

lemma typing_pushes_timers:
  "typing_pushes (s\<lparr>timers := x\<rparr>) u c p b = typing_pushes s u c p b"
  by (rule typing_pushes_cong) simp_all

lemma typing_pushes_typingStatus:
  "typing_pushes (s\<lparr>typingStatus := x\<rparr>) u c p b = typing_pushes s u c p b"
  by (rule typing_pushes_cong) simp_all

text \<open>
  Claim C2 says that a second \<^verbatim>\<open>typing:start\<close> for the same user and chat supersedes the
  timer of the first, so that no end of typing is pushed before the second window of 3000
  milliseconds is over. In the session above alice starts typing to bob at the times 1000
  and 2000: when the timers run at the time 4000, before 2000 + 3000, the end of typing is
  pushed to bob's socket and alice's entry is gone.
\<close>

theorem typing_restart_counterexample:
  "snd (run_timers (two_starts chat_state ''sock-a'' ''user-b'' True 1000 2000) 4000) =
     [\<lparr>push_to = ''sock-b'', push_userId = ''user-a'', push_isTyping = False,
       push_chatId = ''user-b''\<rparr>] \<and>
   typingStatus (fst (run_timers (two_starts chat_state ''sock-a'' ''user-b'' True 1000 2000) 4000))
     ''user-a'' = None \<and>
   (4000::int) < 2000 + 3000"
  by code_simp

text \<open>
  Claim C2, amended. Two \<^verbatim>\<open>typing:start\<close> events of one user for one chat, at the times
  \<open>t1 \<le> t2\<close> and with no other timer pending, leave two pending timers and the entry of
  the second start. The second start does not supersede the timer of the first: no end of
  typing is pushed before the first window is over (\<open>now < t1 + 3000\<close>), and once the first
  window is over (\<open>t1 + 3000 \<le> now\<close>, also when \<open>now < t2 + 3000\<close>) the run of the timers
  deletes the entry and pushes the end of typing to the audience of the chat, once.
\<close>

theorem typing_restart_first_timer:
  assumes "socket_userId s sock = Some userId" and "userId \<noteq> []"
    and "timers s = []" and "t1 \<le> t2"
  shows "timers (two_starts s sock chatId isPrivate t1 t2) =
           [\<lparr>due = t1 + 3000, timer_userId = userId, timer_chatId = chatId,
             timer_isPrivate = isPrivate\<rparr>,
            \<lparr>due = t2 + 3000, timer_userId = userId, timer_chatId = chatId,
             timer_isPrivate = isPrivate\<rparr>] \<and>
         typingStatus (two_starts s sock chatId isPrivate t1 t2) userId =
           Some \<lparr>typing_chatId = chatId, typing_isPrivate = isPrivate, typing_timestamp = t2\<rparr> \<and>
         (now < t1 + 3000 \<longrightarrow>
            run_timers (two_starts s sock chatId isPrivate t1 t2) now =
              (two_starts s sock chatId isPrivate t1 t2, [])) \<and>
         (t1 + 3000 \<le> now \<longrightarrow>
            typingStatus (fst (run_timers (two_starts s sock chatId isPrivate t1 t2) now)) userId
              = None \<and>
            snd (run_timers (two_starts s sock chatId isPrivate t1 t2) now) =
              typing_pushes s userId chatId isPrivate False)"
proof -
  let ?T1 = "\<lparr>due = t1 + 3000, timer_userId = userId, timer_chatId = chatId,
              timer_isPrivate = isPrivate\<rparr>"
  let ?T2 = "\<lparr>due = t2 + 3000, timer_userId = userId, timer_chatId = chatId,
              timer_isPrivate = isPrivate\<rparr>"
  let ?s2 = "two_starts s sock chatId isPrivate t1 t2"
  have sock1: "socket_userId (fst (typing_start s sock chatId isPrivate t1)) sock = Some userId"
    using assms(1,2) by (simp add: typing_start_def socket_userId_def Let_def)
  have tm: "timers ?s2 = [?T1, ?T2]"
    using assms(1,2,3) sock1 by (simp add: two_starts_def typing_start_def socket_userId_def Let_def)
  have st: "typingStatus ?s2 userId =
           Some \<lparr>typing_chatId = chatId, typing_isPrivate = isPrivate, typing_timestamp = t2\<rparr>"
    using assms(1,2) sock1 by (simp add: two_starts_def typing_start_def socket_userId_def Let_def)
  have "userSocketMap ?s2 = userSocketMap s" and "groups ?s2 = groups s"
    using assms(1,2) sock1 by (simp_all add: two_starts_def typing_start_def socket_userId_def Let_def)
  then have fr: "typing_pushes ?s2 userId chatId isPrivate False =
                   typing_pushes s userId chatId isPrivate False"
    by (rule typing_pushes_cong)
  have early: "run_timers ?s2 now = (?s2, [])" if "now < t1 + 3000"
    using that assms(4) tm by (simp add: run_timers_def)
  have late: "typingStatus (fst (run_timers ?s2 now)) userId = None \<and>
              snd (run_timers ?s2 now) = typing_pushes s userId chatId isPrivate False"
    if "t1 + 3000 \<le> now"
  proof (cases "t2 + 3000 \<le> now")
    case True
    then show ?thesis using that assms(4) tm st fr
      by (simp add: run_timers_def run_timer_def typing_timeout_def typing_pushes_timers
          typing_pushes_typingStatus)
  next
    case False
    then show ?thesis using that assms(4) tm st fr
      by (simp add: run_timers_def run_timer_def typing_timeout_def typing_pushes_timers
          typing_pushes_typingStatus)
  qed
  show ?thesis using tm st early late by blast
qed

lemma chat_state_timers: "timers chat_state = []"
  by code_simp

lemma chat_state_pushes:
  "typing_pushes chat_state ''user-a'' ''user-b'' True False =
     [\<lparr>push_to = ''sock-b'', push_userId = ''user-a'', push_isTyping = False,
       push_chatId = ''user-b''\<rparr>]"
  by code_simp

theorem typing_restart_first_timer_witness:
  "run_timers (two_starts chat_state ''sock-a'' ''user-b'' True 1000 2000) 3999 =
     (two_starts chat_state ''sock-a'' ''user-b'' True 1000 2000, []) \<and>
   typingStatus (fst (run_timers (two_starts chat_state ''sock-a'' ''user-b'' True 1000 2000) 4000))
     ''user-a'' = None \<and>
   snd (run_timers (two_starts chat_state ''sock-a'' ''user-b'' True 1000 2000) 4000) =
     [\<lparr>push_to = ''sock-b'', push_userId = ''user-a'', push_isTyping = False,
       push_chatId = ''user-b''\<rparr>]"
proof -
  have ne: "''user-a'' \<noteq> []" by simp
  have le: "(1000::int) \<le> 2000" by simp
  show ?thesis
    using typing_restart_first_timer [OF chat_state_sock_a ne chat_state_timers le,
        of "''user-b''" True 3999]
      typing_restart_first_timer [OF chat_state_sock_a ne chat_state_timers le,
        of "''user-b''" True 4000]
    by (simp add: chat_state_pushes)
qed

end
